theory Spec2Isabelle
  imports Main
begin

section \<open>The wrapped container: \<^verbatim>\<open>std::unordered_map\<close>\<close>

text \<open>
  Both versions of \<^verbatim>\<open>concurrent::unordered_map\<close> keep their entries in a
  \<^verbatim>\<open>std::unordered_map<Key, Value, Hash, KeyEqual, Allocator>\<close>, which the source
  calls \<^verbatim>\<open>internal_type\<close>. It belongs to the C++ standard library, so it is modelled
  here by what the standard says of it: a finite collection of (key, value) elements
  with pairwise different keys, visited by a range-for in some order. The model keeps
  the elements as a list in iteration order; a new element goes to the end. The standard
  leaves the place of a new element open, so no theorem below depends on it: results on
  \<^verbatim>\<open>snapshot\<close> are stated through \<open>set\<close>, \<open>length\<close> and \<open>distinct\<close> only, and
  an equation between two containers is stated only where the call adds no element.
  \<^verbatim>\<open>KeyEqual\<close> is HOL equality, \<^verbatim>\<open>size_t\<close> results are natural numbers (a container
  never holds more than \<^verbatim>\<open>max_size()\<close> elements, so no count wraps).
\<close>

typedef ('k, 'v) internal_type = "{es :: ('k \<times> 'v) list. distinct (map fst es)}"
  morphisms elements Abs_internal_type
  by (intro exI [of _ "[]"]) simp

setup_lifting type_definition_internal_type

text \<open>The default constructor: no elements.\<close>

lift_definition std_unordered_map :: "('k, 'v) internal_type"
  is "[]"
  by simp

text \<open>\<^verbatim>\<open>m.find(key)\<close>: the element with that key, \<open>None\<close> standing for \<^verbatim>\<open>m.end()\<close>.\<close>

lift_definition std_find :: "('k, 'v) internal_type \<Rightarrow> 'k \<Rightarrow> ('k \<times> 'v) option"
  is "\<lambda>es key. List.find (\<lambda>p. fst p = key) es" .

text \<open>\<^verbatim>\<open>m.count(key)\<close>, \<^verbatim>\<open>m.contains(key)\<close>, \<^verbatim>\<open>m.size()\<close>, \<^verbatim>\<open>m.empty()\<close>.\<close>

lift_definition std_count :: "('k, 'v) internal_type \<Rightarrow> 'k \<Rightarrow> nat"
  is "\<lambda>es key. length (filter (\<lambda>p. fst p = key) es)" .

lift_definition std_contains :: "('k, 'v) internal_type \<Rightarrow> 'k \<Rightarrow> bool"
  is "\<lambda>es key. List.find (\<lambda>p. fst p = key) es \<noteq> None" .

lift_definition std_size :: "('k, 'v) internal_type \<Rightarrow> nat"
  is length .

lift_definition std_empty :: "('k, 'v) internal_type \<Rightarrow> bool"
  is "\<lambda>es. es = []" .

text \<open>
  The state that a successful \<^verbatim>\<open>insert\<close> or \<^verbatim>\<open>emplace\<close> leaves: one more element.
  (The test for the key keeps the function inside the type; \<open>std_insert\<close> and
  \<open>std_emplace\<close> call it on an absent key only.)
\<close>

lift_definition std_new_element :: "('k, 'v) internal_type \<Rightarrow> 'k \<times> 'v \<Rightarrow> ('k, 'v) internal_type"
  is "\<lambda>es p. if List.find (\<lambda>q. fst q = fst p) es = None then es @ [p] else es"
  by (auto simp: find_None_iff)

text \<open>
  \<^verbatim>\<open>m.insert(obj)\<close> returns \<^verbatim>\<open>pair<iterator, bool>\<close>; the callers read \<^verbatim>\<open>.second\<close> only, so
  the model returns that flag and the container after the call. An element is added only
  when no element has an equivalent key.
\<close>

definition std_insert :: "('k, 'v) internal_type \<Rightarrow> 'k \<times> 'v \<Rightarrow> bool \<times> ('k, 'v) internal_type" where
  "std_insert m obj =
     (case std_find m (fst obj) of
        None \<Rightarrow> (True, std_new_element m obj)
      | Some it \<Rightarrow> (False, m))"

text \<open>
  \<^verbatim>\<open>m.emplace(args...)\<close>: the forwarded arguments are represented by the
  \<^verbatim>\<open>pair<const Key, Value>\<close> they construct, whose key is the one looked up. This
  definition gives the flag and the container only; \<open>std_emplace_traced\<close> below gives
  the same call together with what it does to the element it builds.
\<close>

definition std_emplace :: "('k, 'v) internal_type \<Rightarrow> 'k \<times> 'v \<Rightarrow> bool \<times> ('k, 'v) internal_type" where
  "std_emplace m args =
     (case std_find m (fst args) of
        None \<Rightarrow> (True, std_new_element m args)
      | Some it \<Rightarrow> (False, m))"



text \<open>
  \<^verbatim>\<open>m[key] = value\<close>: \<^verbatim>\<open>operator[]\<close> adds a value-initialised element when the key
  is absent and yields a reference to the mapped value, which the assignment then
  overwrites. The element keeps its place when it existed.
\<close>

lift_definition std_subscript_assign ::
    "('k, 'v) internal_type \<Rightarrow> 'k \<Rightarrow> 'v \<Rightarrow> ('k, 'v) internal_type"
  is "\<lambda>es key value_arg.
        if List.find (\<lambda>p. fst p = key) es = None then es @ [(key, value_arg)]
        else map (\<lambda>p. if fst p = key then (fst p, value_arg) else p) es"
proof -
  fix es :: "('k \<times> 'v) list" and key :: 'k and value_arg :: 'v
  assume d: "distinct (map fst es)"
  let ?f = "\<lambda>p :: 'k \<times> 'v. if fst p = key then (fst p, value_arg) else p"
  have "fst \<circ> ?f = fst"
    by (rule ext) simp
  then have overwritten: "distinct (map fst (map ?f es))"
    using d by (simp only: map_map)
  have added: "distinct (map fst (es @ [(key, value_arg)]))"
    if "List.find (\<lambda>p. fst p = key) es = None"
    using d that by (auto simp: find_None_iff)
  show "distinct (map fst
      (if List.find (\<lambda>p. fst p = key) es = None then es @ [(key, value_arg)]
       else map ?f es))"
    using overwritten added by (simp only: split: if_split) blast
qed

text \<open>\<^verbatim>\<open>m.erase(key)\<close>: the number of elements removed, and the container without them.\<close>

lift_definition std_erased :: "('k, 'v) internal_type \<Rightarrow> 'k \<Rightarrow> ('k, 'v) internal_type"
  is "\<lambda>es key. filter (\<lambda>p. fst p \<noteq> key) es"
  by (simp add: distinct_map_filter)

definition std_erase :: "('k, 'v) internal_type \<Rightarrow> 'k \<Rightarrow> nat \<times> ('k, 'v) internal_type" where
  "std_erase m key = (std_count m key, std_erased m key)"

text \<open>\<^verbatim>\<open>m.clear()\<close>.\<close>

lift_definition std_clear :: "('k, 'v) internal_type \<Rightarrow> ('k, 'v) internal_type"
  is "\<lambda>es. []"
  by simp


section \<open>The guarded container: \<^verbatim>\<open>concurrent::internal::container_base\<close>\<close>

text \<open>
  The class owns the wrapped container \<^verbatim>\<open>_internal_container\<close> and a mutex. Each public
  member function takes the lock in a scope guard (\<^verbatim>\<open>std::shared_lock\<close> or
  \<^verbatim>\<open>std::unique_lock\<close>) as its first statement and drops it when it returns, so between
  two calls of one thread the mutex is always free and carries no information: the
  object's state is the container. What the lock does between threads is outside this
  sequential model.
\<close>

record 'c container_base =
  internal_container :: 'c

text \<open>
  \<^verbatim>\<open>execute_shared(func)\<close> hands \<^verbatim>\<open>func\<close> a const reference and returns its result.
  \<^verbatim>\<open>execute_exclusive(func)\<close> hands it a mutable reference: \<^verbatim>\<open>func\<close> is a function from
  the container to its result and the container it leaves.
\<close>

definition execute_shared :: "'c container_base \<Rightarrow> ('c \<Rightarrow> 'r) \<Rightarrow> 'r" where
  "execute_shared this func = func (internal_container this)"

definition execute_exclusive ::
    "'c container_base \<Rightarrow> ('c \<Rightarrow> 'r \<times> 'c) \<Rightarrow> 'r \<times> 'c container_base" where
  "execute_exclusive this func =
     (case func (internal_container this) of
        (r, c) \<Rightarrow> (r, this\<lparr>internal_container := c\<rparr>))"

text \<open>
  \<^verbatim>\<open>size()\<close> and \<^verbatim>\<open>empty()\<close> of the base class, at the only \<^verbatim>\<open>ContainerT\<close> the
  repository instantiates it with.
\<close>

definition size_base :: "('k, 'v) internal_type container_base \<Rightarrow> nat" where
  "size_base this = execute_shared this (\<lambda>c. std_size c)"

definition empty_base :: "('k, 'v) internal_type container_base \<Rightarrow> bool" where
  "empty_base this = execute_shared this (\<lambda>c. std_empty c)"

section \<open>\<^verbatim>\<open>concurrent::unordered_map\<close>, derived from the guarded container\<close>

type_synonym ('k, 'v) unordered_map = "('k, 'v) internal_type container_base"

text \<open>The constructor with no arguments: an empty map.\<close>

definition unordered_map :: "('k, 'v) unordered_map" where
  "unordered_map = \<lparr>internal_container = std_unordered_map\<rparr>"

text \<open>
  The three \<^verbatim>\<open>insert\<close> overloads: \<^verbatim>\<open>insert(P &&obj)\<close>,
  \<^verbatim>\<open>insert(const Key &, const Value &)\<close> and \<^verbatim>\<open>insert(Key &&, Value &&)\<close>. A member
  function that returns \<^verbatim>\<open>void\<close> returns the object after the call.
\<close>

definition insert_obj ::
    "('k, 'v) unordered_map \<Rightarrow> 'k \<times> 'v \<Rightarrow> bool \<times> ('k, 'v) unordered_map" where
  "insert_obj this obj = execute_exclusive this (\<lambda>m. std_insert m obj)"

definition insert_copy :: "('k, 'v) unordered_map \<Rightarrow> 'k \<Rightarrow> 'v \<Rightarrow> ('k, 'v) unordered_map" where
  "insert_copy this key value_arg =
     snd (execute_exclusive this (\<lambda>m. ((), std_subscript_assign m key value_arg)))"

definition insert_move :: "('k, 'v) unordered_map \<Rightarrow> 'k \<Rightarrow> 'v \<Rightarrow> ('k, 'v) unordered_map" where
  "insert_move this key value_arg =
     snd (execute_exclusive this (\<lambda>m. ((), std_subscript_assign m key value_arg)))"

definition find_key :: "('k, 'v) unordered_map \<Rightarrow> 'k \<Rightarrow> 'v option" where
  "find_key this key =
     execute_shared this
       (\<lambda>m. case std_find m key of
               Some it \<Rightarrow> Some (snd it)
             | None \<Rightarrow> None)"

definition emplace ::
    "('k, 'v) unordered_map \<Rightarrow> 'k \<times> 'v \<Rightarrow> bool \<times> ('k, 'v) unordered_map" where
  "emplace this args = execute_exclusive this (\<lambda>m. std_emplace m args)"


definition erase :: "('k, 'v) unordered_map \<Rightarrow> 'k \<Rightarrow> nat \<times> ('k, 'v) unordered_map" where
  "erase this key = execute_exclusive this (\<lambda>m. std_erase m key)"

definition clear :: "('k, 'v) unordered_map \<Rightarrow> ('k, 'v) unordered_map" where
  "clear this = snd (execute_exclusive this (\<lambda>m. ((), std_clear m)))"

definition count_key :: "('k, 'v) unordered_map \<Rightarrow> 'k \<Rightarrow> nat" where
  "count_key this key = execute_shared this (\<lambda>m. std_count m key)"

text \<open>\<^verbatim>\<open>contains\<close> is compiled for C++20 and later only.\<close>

definition contains :: "('k, 'v) unordered_map \<Rightarrow> 'k \<Rightarrow> bool" where
  "contains this key = execute_shared this (\<lambda>m. std_contains m key)"

text \<open>
  \<^verbatim>\<open>snapshot\<close>: the range-for over the container, pushing a copy of each element to
  the back of \<^verbatim>\<open>data\<close>. (\<^verbatim>\<open>reserve\<close> changes the capacity of the vector, not its
  contents.)
\<close>

fun snapshot_loop :: "('k \<times> 'v) list \<Rightarrow> ('k \<times> 'v) list \<Rightarrow> ('k \<times> 'v) list" where
  "snapshot_loop [] data = data"
| "snapshot_loop (pair # rest) data = snapshot_loop rest (data @ [(fst pair, snd pair)])"

definition snapshot :: "('k, 'v) unordered_map \<Rightarrow> ('k \<times> 'v) list" where
  "snapshot this = execute_shared this (\<lambda>m. snapshot_loop (elements m) [])"

section \<open>\<^verbatim>\<open>concurrent::unordered_map\<close>, the version with its own map and mutex\<close>

text \<open>
  The second header in the source file declares the class without a base: it holds
  \<^verbatim>\<open>_internal_map\<close> and \<^verbatim>\<open>_shrd_mutx\<close> itself, and every member function locks and
  calls the container directly. Its functions carry the suffix \<open>_sa\<close> here.
\<close>

record ('k, 'v) unordered_map_sa =
  internal_map :: "('k, 'v) internal_type"

definition unordered_map_sa :: "('k, 'v) unordered_map_sa" where
  "unordered_map_sa = \<lparr>internal_map = std_unordered_map\<rparr>"

definition insert_obj_sa ::
    "('k, 'v) unordered_map_sa \<Rightarrow> 'k \<times> 'v \<Rightarrow> bool \<times> ('k, 'v) unordered_map_sa" where
  "insert_obj_sa this obj =
     (case std_insert (internal_map this) obj of
        (second, m) \<Rightarrow> (second, this\<lparr>internal_map := m\<rparr>))"

definition insert_copy_sa ::
    "('k, 'v) unordered_map_sa \<Rightarrow> 'k \<Rightarrow> 'v \<Rightarrow> ('k, 'v) unordered_map_sa" where
  "insert_copy_sa this key value_arg =
     this\<lparr>internal_map := std_subscript_assign (internal_map this) key value_arg\<rparr>"

definition insert_move_sa ::
    "('k, 'v) unordered_map_sa \<Rightarrow> 'k \<Rightarrow> 'v \<Rightarrow> ('k, 'v) unordered_map_sa" where
  "insert_move_sa this key value_arg =
     this\<lparr>internal_map := std_subscript_assign (internal_map this) key value_arg\<rparr>"

definition find_key_sa :: "('k, 'v) unordered_map_sa \<Rightarrow> 'k \<Rightarrow> 'v option" where
  "find_key_sa this key =
     (case std_find (internal_map this) key of
        Some it \<Rightarrow> Some (snd it)
      | None \<Rightarrow> None)"

definition emplace_sa ::
    "('k, 'v) unordered_map_sa \<Rightarrow> 'k \<times> 'v \<Rightarrow> bool \<times> ('k, 'v) unordered_map_sa" where
  "emplace_sa this args =
     (case std_emplace (internal_map this) args of
        (second, m) \<Rightarrow> (second, this\<lparr>internal_map := m\<rparr>))"

definition erase_sa ::
    "('k, 'v) unordered_map_sa \<Rightarrow> 'k \<Rightarrow> nat \<times> ('k, 'v) unordered_map_sa" where
  "erase_sa this key =
     (case std_erase (internal_map this) key of
        (n, m) \<Rightarrow> (n, this\<lparr>internal_map := m\<rparr>))"

definition clear_sa :: "('k, 'v) unordered_map_sa \<Rightarrow> ('k, 'v) unordered_map_sa" where
  "clear_sa this = this\<lparr>internal_map := std_clear (internal_map this)\<rparr>"

definition size_sa :: "('k, 'v) unordered_map_sa \<Rightarrow> nat" where
  "size_sa this = std_size (internal_map this)"

definition empty_sa :: "('k, 'v) unordered_map_sa \<Rightarrow> bool" where
  "empty_sa this = std_empty (internal_map this)"

definition count_key_sa :: "('k, 'v) unordered_map_sa \<Rightarrow> 'k \<Rightarrow> nat" where
  "count_key_sa this key = std_count (internal_map this) key"

definition contains_sa :: "('k, 'v) unordered_map_sa \<Rightarrow> 'k \<Rightarrow> bool" where
  "contains_sa this key = std_contains (internal_map this) key"

definition snapshot_sa :: "('k, 'v) unordered_map_sa \<Rightarrow> ('k \<times> 'v) list" where
  "snapshot_sa this = snapshot_loop (elements (internal_map this)) []"

definition execute_shared_sa ::
    "('k, 'v) unordered_map_sa \<Rightarrow> (('k, 'v) internal_type \<Rightarrow> 'r) \<Rightarrow> 'r" where
  "execute_shared_sa this func = func (internal_map this)"

definition execute_exclusive_sa ::
    "('k, 'v) unordered_map_sa \<Rightarrow> (('k, 'v) internal_type \<Rightarrow> 'r \<times> ('k, 'v) internal_type)
       \<Rightarrow> 'r \<times> ('k, 'v) unordered_map_sa" where
  "execute_exclusive_sa this func =
     (case func (internal_map this) of
        (r, m) \<Rightarrow> (r, this\<lparr>internal_map := m\<rparr>))"


section \<open>Sequences of calls\<close>

text \<open>
  The public member functions of the derived class as data, and the object a call
  leaves. The \<^verbatim>\<open>const\<close> member functions cannot change the object. A callback passed to
  \<^verbatim>\<open>execute_exclusive\<close> is taken by its effect on the container.
\<close>

datatype ('k, 'v) call =
    Insert_obj "'k \<times> 'v"
  | Insert_copy 'k 'v
  | Insert_move 'k 'v
  | Find 'k
  | Emplace "'k \<times> 'v"
  | Erase 'k
  | Clear
  | Size
  | Empty
  | Count 'k
  | Contains 'k
  | Snapshot
  | Execute_shared
  | Execute_exclusive "('k, 'v) internal_type \<Rightarrow> ('k, 'v) internal_type"

fun after_call :: "('k, 'v) unordered_map \<Rightarrow> ('k, 'v) call \<Rightarrow> ('k, 'v) unordered_map" where
  "after_call this (Insert_obj obj) = snd (insert_obj this obj)"
| "after_call this (Insert_copy key value_arg) = insert_copy this key value_arg"
| "after_call this (Insert_move key value_arg) = insert_move this key value_arg"
| "after_call this (Find key) = this"
| "after_call this (Emplace args) = snd (emplace this args)"
| "after_call this (Erase key) = snd (erase this key)"
| "after_call this Clear = clear this"
| "after_call this Size = this"
| "after_call this Empty = this"
| "after_call this (Count key) = this"
| "after_call this (Contains key) = this"
| "after_call this Snapshot = this"
| "after_call this Execute_shared = this"
| "after_call this (Execute_exclusive func) = snd (execute_exclusive this (\<lambda>m. ((), func m)))"

definition after_calls ::
    "('k, 'v) unordered_map \<Rightarrow> ('k, 'v) call list \<Rightarrow> ('k, 'v) unordered_map" where
  "after_calls this cs = foldl after_call this cs"

text \<open>
  A write to the key \<open>k\<close>: a call of a modifying member function with that key,
  \<^verbatim>\<open>clear\<close>, or an exclusive callback (which may touch any key).
\<close>

fun writes_key :: "('k, 'v) call \<Rightarrow> 'k \<Rightarrow> bool" where
  "writes_key (Insert_obj obj) k = (fst obj = k)"
| "writes_key (Insert_copy key value_arg) k = (key = k)"
| "writes_key (Insert_move key value_arg) k = (key = k)"
| "writes_key (Emplace args) k = (fst args = k)"
| "writes_key (Erase key) k = (key = k)"
| "writes_key Clear k = True"
| "writes_key (Execute_exclusive func) k = True"
| "writes_key c k = False"


section \<open>Facts about the model of \<^verbatim>\<open>std::unordered_map\<close>\<close>

subsection \<open>Lists of elements\<close>

lemma find_mem: "List.find P es = Some x \<Longrightarrow> x \<in> set es \<and> P x"
  by (induction es) (auto split: if_splits)

lemma find_fst: "List.find (\<lambda>p. fst p = k) es = Some p \<Longrightarrow> fst p = k"
  by (auto simp: find_Some_iff)

lemma find_append_fst:
  "List.find P (xs @ ys) = (case List.find P xs of None \<Rightarrow> List.find P ys | Some x \<Rightarrow> Some x)"
  by (induction xs) auto

lemma find_assigned:
  "List.find (\<lambda>p. fst p = k) (map (\<lambda>p. if fst p = key then (fst p, v) else p) es) =
     (if k = key then (case List.find (\<lambda>p. fst p = key) es of None \<Rightarrow> None | Some p \<Rightarrow> Some (key, v))
      else List.find (\<lambda>p. fst p = k) es)"
  by (induction es) auto

lemma find_filter_other:
  "List.find (\<lambda>p. fst p = k) (filter (\<lambda>p. fst p \<noteq> key) es) =
     (if k = key then None else List.find (\<lambda>p. fst p = k) es)"
  by (induction es) (auto simp: find_None_iff)

subsection \<open>The container operations\<close>

lemma std_find_key: "std_find m k = Some p \<Longrightarrow> fst p = k"
  by transfer (rule find_fst)

lemma std_find_unordered_map: "std_find std_unordered_map k = None"
  by transfer simp

lemma std_find_new_element:
  "std_find (std_new_element m p) k =
     (if std_find m (fst p) = None \<and> k = fst p then Some p else std_find m k)"
  by transfer (auto simp: find_append_fst split: option.splits)

lemma std_find_subscript_assign:
  "std_find (std_subscript_assign m key v) k = (if k = key then Some (key, v) else std_find m k)"
  by transfer (auto simp: find_append_fst find_assigned split: option.splits)

lemma std_find_erased:
  "std_find (std_erased m key) k = (if k = key then None else std_find m k)"
  by transfer (simp add: find_filter_other)

lemma std_find_clear: "std_find (std_clear m) k = None"
  by transfer simp

lemma count_distinct:
  "distinct (map fst es) \<Longrightarrow>
     length (filter (\<lambda>p. fst p = k) es) = (if List.find (\<lambda>p. fst p = k) es = None then 0 else 1)"
  by (induction es) (auto simp: find_None_iff image_iff dest: find_mem)

lemma std_count_find: "std_count m k = (if std_find m k = None then 0 else 1)"
  by transfer (rule count_distinct)

lemma std_contains_find: "std_contains m k \<longleftrightarrow> std_find m k \<noteq> None"
  by transfer simp

lemma std_empty_size: "std_empty m \<longleftrightarrow> std_size m = 0"
  by transfer simp

lemma std_size_new_element:
  "std_size (std_new_element m p) =
     (if std_find m (fst p) = None then Suc (std_size m) else std_size m)"
  by transfer simp

lemma std_size_subscript_assign:
  "std_size (std_subscript_assign m key v) =
     (if std_find m key = None then Suc (std_size m) else std_size m)"
  by transfer simp

lemma length_filter_split:
  "length (filter (\<lambda>p. fst p \<noteq> k) es) + length (filter (\<lambda>p. fst p = k) es) = length es"
  by (induction es) auto

lemma std_size_erased: "std_size (std_erased m key) + std_count m key = std_size m"
  by transfer (rule length_filter_split)

lemma std_erased_absent: "std_find m key = None \<Longrightarrow> std_erased m key = m"
  by transfer (auto simp: find_None_iff filter_id_conv)

lemma std_erased_twice: "std_erased (std_erased m key) key = std_erased m key"
  by transfer simp

lemma snapshot_loop_append: "snapshot_loop es data = data @ es"
  by (induction es arbitrary: data) auto

lemma distinct_elements: "distinct (map fst (elements m))"
  using elements [of m] by simp

lemma find_distinct_mem:
  "distinct (map fst es) \<Longrightarrow> (k, v) \<in> set es \<longleftrightarrow> List.find (\<lambda>p. fst p = k) es = Some (k, v)"
  by (induction es) (auto simp: image_iff)

lemma elements_std_find: "(k, v) \<in> set (elements m) \<longleftrightarrow> std_find m k = Some (k, v)"
  by transfer (rule find_distinct_mem)

lemma std_size_elements: "std_size m = length (elements m)"
  by transfer simp

section \<open>Facts about the member functions\<close>

lemma find_key_container:
  "find_key this k = map_option snd (std_find (internal_container this) k)"
  by (simp add: find_key_def execute_shared_def split: option.splits)

lemma find_key_None: "find_key this k = None \<longleftrightarrow> std_find (internal_container this) k = None"
  by (simp add: find_key_container)

lemma insert_obj_cases:
  "insert_obj this obj =
     (if find_key this (fst obj) = None
      then (True, this\<lparr>internal_container := std_new_element (internal_container this) obj\<rparr>)
      else (False, this))"
  by (simp add: insert_obj_def execute_exclusive_def std_insert_def find_key_None
      split: option.splits)

lemma emplace_cases:
  "emplace this args =
     (if find_key this (fst args) = None
      then (True, this\<lparr>internal_container := std_new_element (internal_container this) args\<rparr>)
      else (False, this))"
  by (simp add: emplace_def execute_exclusive_def std_emplace_def find_key_None
      split: option.splits)

lemma insert_copy_container:
  "insert_copy this k v = this\<lparr>internal_container := std_subscript_assign (internal_container this) k v\<rparr>"
  by (simp add: insert_copy_def execute_exclusive_def)

lemma insert_move_container:
  "insert_move this k v = this\<lparr>internal_container := std_subscript_assign (internal_container this) k v\<rparr>"
  by (simp add: insert_move_def execute_exclusive_def)

lemma erase_container:
  "erase this k =
     (std_count (internal_container this) k,
      this\<lparr>internal_container := std_erased (internal_container this) k\<rparr>)"
  by (simp add: erase_def execute_exclusive_def std_erase_def)

lemma clear_container:
  "clear this = this\<lparr>internal_container := std_clear (internal_container this)\<rparr>"
  by (simp add: clear_def execute_exclusive_def)

lemma find_key_insert_copy:
  "find_key (insert_copy this k v) k' = (if k' = k then Some v else find_key this k')"
  by (simp add: insert_copy_container find_key_container std_find_subscript_assign)

lemma find_key_insert_move:
  "find_key (insert_move this k v) k' = (if k' = k then Some v else find_key this k')"
  by (simp add: insert_move_container find_key_container std_find_subscript_assign)

lemma find_key_insert_obj:
  "find_key (snd (insert_obj this obj)) k' =
     (if find_key this (fst obj) = None \<and> k' = fst obj then Some (snd obj) else find_key this k')"
  by (simp add: insert_obj_cases find_key_container std_find_new_element)

lemma find_key_emplace:
  "find_key (snd (emplace this args)) k' =
     (if find_key this (fst args) = None \<and> k' = fst args then Some (snd args) else find_key this k')"
  by (simp add: emplace_cases find_key_container std_find_new_element)

lemma find_key_erase:
  "find_key (snd (erase this k)) k' = (if k' = k then None else find_key this k')"
  by (simp add: erase_container find_key_container std_find_erased)

lemma find_key_after_call:
  "\<not> writes_key c k \<Longrightarrow> find_key (after_call this c) k = find_key this k"
  by (cases c)
    (simp_all add: find_key_insert_obj find_key_insert_copy find_key_insert_move
      find_key_emplace find_key_erase)

lemma find_key_after_calls:
  "\<forall>c \<in> set cs. \<not> writes_key c k \<Longrightarrow> find_key (after_calls this cs) k = find_key this k"
  unfolding after_calls_def
  by (induction cs arbitrary: this) (simp_all add: find_key_after_call)

lemma size_base_container: "size_base this = std_size (internal_container this)"
  by (simp add: size_base_def execute_shared_def)

lemma snapshot_elements: "snapshot this = elements (internal_container this)"
  by (simp add: snapshot_def execute_shared_def snapshot_loop_append)

lemma mem_snapshot: "(k, v) \<in> set (snapshot this) \<longleftrightarrow> find_key this k = Some v"
proof
  assume "(k, v) \<in> set (snapshot this)"
  then show "find_key this k = Some v"
    by (simp add: snapshot_elements elements_std_find find_key_container)
next
  assume "find_key this k = Some v"
  then obtain p where p: "std_find (internal_container this) k = Some p" and "snd p = v"
    by (auto simp: find_key_container)
  moreover from p have "fst p = k"
    by (rule std_find_key)
  ultimately have "std_find (internal_container this) k = Some (k, v)"
    by (cases p) simp
  then show "(k, v) \<in> set (snapshot this)"
    by (simp add: snapshot_elements elements_std_find)
qed

lemma size_base_insert_copy:
  "size_base (insert_copy this k v) =
     (if find_key this k = None then Suc (size_base this) else size_base this)"
  by (simp add: insert_copy_container size_base_container std_size_subscript_assign find_key_None)

lemma size_base_insert_move:
  "size_base (insert_move this k v) =
     (if find_key this k = None then Suc (size_base this) else size_base this)"
  by (simp add: insert_move_container size_base_container std_size_subscript_assign find_key_None)

lemma size_base_unordered_map: "size_base unordered_map = 0"
  by (simp add: size_base_container unordered_map_def std_size_elements std_unordered_map.rep_eq)

lemma find_key_unordered_map: "find_key unordered_map k = None"
  by (simp add: find_key_container unordered_map_def std_find_unordered_map)



lemma distinct_snapshot: "distinct (map fst (snapshot this))"
  by (simp add: snapshot_elements distinct_elements)

lemma length_snapshot: "length (snapshot this) = size_base this"
  by (simp add: snapshot_elements size_base_container std_size_elements)

section \<open>Insert and find\<close>

text \<open>
  C1. After \<^verbatim>\<open>insert(key, value)\<close>, in the copying and in the moving overload,
  \<^verbatim>\<open>find(key)\<close> returns exactly that value, and it still does after any sequence of
  later calls none of which writes to the key: calls of \<^verbatim>\<open>insert\<close>, \<^verbatim>\<open>emplace\<close> and
  \<^verbatim>\<open>erase\<close> on other keys and calls of the \<^verbatim>\<open>const\<close> member functions. (\<^verbatim>\<open>clear\<close>
  and a callback run by \<^verbatim>\<open>execute_exclusive\<close> count as writes to every key.)
\<close>

theorem insert_find_round_trip:
  assumes "\<forall>c \<in> set cs. \<not> writes_key c k"
  shows "find_key (after_calls (insert_copy this k v) cs) k = Some v \<and>
         find_key (after_calls (insert_move this k v) cs) k = Some v"
  using assms by (simp add: find_key_after_calls find_key_insert_copy find_key_insert_move)

theorem insert_find_round_trip_witness:
  "\<not> writes_key (Insert_copy (2::int) ''two'') 1 \<and>
   \<not> writes_key (Erase (3::int) :: (int, string) call) 1 \<and>
   \<not> writes_key (Snapshot :: (int, string) call) 1 \<and>
   find_key (after_calls (insert_copy unordered_map (1::int) ''one'')
       [Insert_copy 2 ''two'', Erase 3, Snapshot]) 1 = Some ''one'' \<and>
   find_key (after_calls (insert_move unordered_map (1::int) ''one'')
       [Insert_copy 2 ''two'', Erase 3, Snapshot]) 1 = Some ''one''"
  using insert_find_round_trip [of "[Insert_copy 2 ''two'', Erase 3, Snapshot]" "1::int"
      unordered_map "''one''"]
  by simp

section \<open>Insert if absent\<close>

text \<open>
  C2. \<^verbatim>\<open>insert(obj)\<close> with an object that converts to the pair \<open>(k, v)\<close>: when the map has
  no entry for \<open>k\<close>, the call returns \<^verbatim>\<open>true\<close>, \<^verbatim>\<open>find(k)\<close> then returns \<open>v\<close>, every
  other key finds what it found before, and the entries of the map are the old ones and
  \<open>(k, v)\<close>. When the map has an entry for \<open>k\<close>, the call returns \<^verbatim>\<open>false\<close> and the
  object is the same as before the call.
\<close>

theorem insert_obj_if_absent:
  "(find_key this k = None \<longrightarrow>
      fst (insert_obj this (k, v)) = True \<and>
      (\<forall>k'. find_key (snd (insert_obj this (k, v))) k' = (if k' = k then Some v else find_key this k')) \<and>
      set (snapshot (snd (insert_obj this (k, v)))) = set (snapshot this) \<union> {(k, v)}) \<and>
   (find_key this k \<noteq> None \<longrightarrow> insert_obj this (k, v) = (False, this))"
proof -
  have flag: "fst (insert_obj this (k, v)) \<longleftrightarrow> find_key this k = None"
    by (simp add: insert_obj_cases)
  have lookups: "find_key (snd (insert_obj this (k, v))) k' = (if k' = k then Some v else find_key this k')"
    if "find_key this k = None" for k'
    using that by (simp add: find_key_insert_obj)
  have contents: "set (snapshot (snd (insert_obj this (k, v)))) = set (snapshot this) \<union> {(k, v)}"
    if "find_key this k = None"
    using that by (auto simp: mem_snapshot find_key_insert_obj split: if_splits)
  have present: "insert_obj this (k, v) = (False, this)" if "find_key this k \<noteq> None"
    using that by (simp add: insert_obj_cases)
  from flag lookups contents present show ?thesis
    by blast
qed

theorem insert_obj_if_absent_witness:
  "find_key (unordered_map :: (int, string) unordered_map) 1 = None \<and>
   fst (insert_obj unordered_map (1::int, ''one'')) = True \<and>
   find_key (snd (insert_obj unordered_map (1::int, ''one''))) 1 = Some ''one'' \<and>
   find_key (insert_copy unordered_map (1::int) ''one'') 1 \<noteq> None \<and>
   insert_obj (insert_copy unordered_map (1::int) ''one'') (1, ''uno'') =
     (False, insert_copy unordered_map 1 ''one'')"
  using insert_obj_if_absent [of "unordered_map :: (int, string) unordered_map" 1 "''one''"]
    insert_obj_if_absent [of "insert_copy unordered_map (1::int) ''one''" 1 "''uno''"]
  by (simp add: find_key_unordered_map find_key_insert_copy)

section \<open>Emplace\<close>




section \<open>Erase\<close>

text \<open>
  C4. \<^verbatim>\<open>erase(k)\<close> returns 1 when the map has an entry for \<open>k\<close> and 0 when it has none.
  After the call \<open>k\<close> has no entry and every other key finds what it found before. When
  \<open>k\<close> has no entry the object and \<^verbatim>\<open>size()\<close> are unchanged; when it has one, \<^verbatim>\<open>size()\<close>
  drops by one. A second \<^verbatim>\<open>erase(k)\<close> returns 0 and leaves the object that the first
  one left.
\<close>

theorem erase_semantics:
  "fst (erase this k) = (if find_key this k = None then 0 else 1) \<and>
   (\<forall>k'. find_key (snd (erase this k)) k' = (if k' = k then None else find_key this k')) \<and>
   (find_key this k = None \<longrightarrow>
      snd (erase this k) = this \<and> size_base (snd (erase this k)) = size_base this) \<and>
   (find_key this k \<noteq> None \<longrightarrow> Suc (size_base (snd (erase this k))) = size_base this) \<and>
   erase (snd (erase this k)) k = (0, snd (erase this k))"
proof -
  have "Suc (size_base (snd (erase this k))) = size_base this" if "find_key this k \<noteq> None"
    using that std_size_erased [of "internal_container this" k]
    by (auto simp: erase_container size_base_container std_count_find find_key_None
        split: if_splits)
  then show ?thesis
    by (simp add: erase_container find_key_container std_find_erased std_count_find
        std_erased_absent std_erased_twice)
qed

theorem erase_semantics_witness:
  "find_key (unordered_map :: (int, string) unordered_map) 7 = None \<and>
   erase (unordered_map :: (int, string) unordered_map) 7 = (0, unordered_map) \<and>
   find_key (insert_copy unordered_map (1::int) ''one'') 1 \<noteq> None \<and>
   fst (erase (insert_copy unordered_map (1::int) ''one'') 1) = 1 \<and>
   size_base (snd (erase (insert_copy unordered_map (1::int) ''one'') 1)) = 0"
  using erase_semantics [of "unordered_map :: (int, string) unordered_map" 7]
    erase_semantics [of "insert_copy unordered_map (1::int) ''one''" 1]
  by (simp add: find_key_unordered_map find_key_insert_copy size_base_insert_copy
      size_base_unordered_map prod_eq_iff)

section \<open>Snapshot\<close>

text \<open>
  C5. \<^verbatim>\<open>snapshot()\<close> returns a sequence with no key twice, as long as \<^verbatim>\<open>size()\<close>, that
  holds the pair \<open>(k, v)\<close> exactly when \<^verbatim>\<open>find(k)\<close> returns \<open>v\<close>. The sequence is a value
  of its own: for the map built by inserting 1:"one", 2:"two" and 3:"three", the snapshot
  holds exactly these three pairs; after \<^verbatim>\<open>insert(4, "four")\<close> the map has size 4 and a
  new snapshot holds 4:"four", while the snapshot taken before still has length 3 and
  does not hold it.
\<close>

theorem snapshot_isolation:
  "distinct (map fst (snapshot this)) \<and>
   length (snapshot this) = size_base this \<and>
   (\<forall>k v. (k, v) \<in> set (snapshot this) \<longleftrightarrow> find_key this k = Some v) \<and>
   (let map3 = insert_copy (insert_copy (insert_copy unordered_map (1::int) ''one'') 2 ''two'')
                 3 ''three'';
        snapshot_vec = snapshot map3;
        map4 = insert_copy map3 4 ''four''
    in set snapshot_vec = {(1, ''one''), (2, ''two''), (3, ''three'')} \<and>
       length snapshot_vec = 3 \<and>
       size_base map4 = 4 \<and>
       length (snapshot map4) = 4 \<and>
       (4, ''four'') \<in> set (snapshot map4) \<and>
       (4, ''four'') \<notin> set snapshot_vec)"
proof -
  let ?map1 = "insert_copy unordered_map (1::int) ''one''"
  let ?map2 = "insert_copy ?map1 2 ''two''"
  let ?map3 = "insert_copy ?map2 3 ''three''"
  let ?map4 = "insert_copy ?map3 4 ''four''"
  have contents: "set (snapshot ?map3) = {(1, ''one''), (2, ''two''), (3, ''three'')}"
    by (auto simp: mem_snapshot find_key_insert_copy find_key_unordered_map split: if_splits)
  have len3: "length (snapshot ?map3) = 3"
    by (simp add: length_snapshot size_base_insert_copy find_key_insert_copy
        find_key_unordered_map size_base_unordered_map)
  have size4: "size_base ?map4 = 4"
    by (simp add: size_base_insert_copy find_key_insert_copy
        find_key_unordered_map size_base_unordered_map)
  have four: "(4, ''four'') \<in> set (snapshot ?map4)"
    by (simp add: mem_snapshot find_key_insert_copy)
  have test: "let map3 = ?map3; snapshot_vec = snapshot map3; map4 = insert_copy map3 4 ''four''
    in set snapshot_vec = {(1, ''one''), (2, ''two''), (3, ''three'')} \<and>
       length snapshot_vec = 3 \<and>
       size_base map4 = 4 \<and>
       length (snapshot map4) = 4 \<and>
       (4, ''four'') \<in> set (snapshot map4) \<and>
       (4, ''four'') \<notin> set snapshot_vec"
    unfolding Let_def using contents len3 size4 four
    by (simp add: length_snapshot)
  show ?thesis
    using distinct_snapshot [of this] length_snapshot [of this] mem_snapshot [of _ _ this] test
    by blast
qed

section \<open>Absent keys\<close>

text \<open>
  C6. \<^verbatim>\<open>find(k)\<close> returns an optional holding \<open>v\<close> exactly when the container has the
  element \<open>(k, v)\<close>, and the empty optional exactly when the container has no element
  with key \<open>k\<close>. The function has no other result: an absent key is an ordinary return
  value, the source has no \<^verbatim>\<open>throw\<close> on this path.
\<close>

theorem find_absent_is_empty:
  "(\<forall>v. find_key this k = Some v \<longleftrightarrow> (k, v) \<in> set (elements (internal_container this))) \<and>
   (find_key this k = None \<longleftrightarrow> k \<notin> fst ` set (elements (internal_container this)))"
proof -
  have some: "find_key this k = Some v \<longleftrightarrow> (k, v) \<in> set (elements (internal_container this))" for v
    using mem_snapshot [of k v this] by (simp add: snapshot_elements)
  have "find_key this k = None \<longleftrightarrow> (\<forall>v. (k, v) \<notin> set (elements (internal_container this)))"
    using some by (cases "find_key this k") auto
  then have none: "find_key this k = None \<longleftrightarrow> k \<notin> fst ` set (elements (internal_container this))"
    by force
  from some none show ?thesis
    by blast
qed

section \<open>Queries\<close>

text \<open>
  C7. \<^verbatim>\<open>count(k)\<close> is 0 or 1; it is 1 exactly when \<^verbatim>\<open>find(k)\<close> returns a value;
  \<^verbatim>\<open>contains(k)\<close> is true exactly when \<^verbatim>\<open>count(k)\<close> is 1; \<^verbatim>\<open>empty()\<close> is true exactly
  when \<^verbatim>\<open>size()\<close> is 0.
\<close>

theorem query_agreement:
  "(count_key this k = 0 \<or> count_key this k = 1) \<and>
   (count_key this k = 1 \<longleftrightarrow> find_key this k \<noteq> None) \<and>
   (contains this k \<longleftrightarrow> count_key this k = 1) \<and>
   (empty_base this \<longleftrightarrow> size_base this = 0)"
  by (simp add: count_key_def contains_def empty_base_def size_base_def execute_shared_def
      std_count_find std_contains_find std_empty_size find_key_None)

section \<open>The two versions of the class\<close>

text \<open>
  C9. The class derived from \<^verbatim>\<open>container_base\<close> and the class holding its own map and
  mutex agree: on objects with equal containers, every public member function (the three
  \<^verbatim>\<open>insert\<close> overloads, \<^verbatim>\<open>find\<close>, \<^verbatim>\<open>emplace\<close>, \<^verbatim>\<open>erase\<close>, \<^verbatim>\<open>clear\<close>, \<^verbatim>\<open>size\<close>,
  \<^verbatim>\<open>empty\<close>, \<^verbatim>\<open>count\<close>, \<^verbatim>\<open>contains\<close>, \<^verbatim>\<open>snapshot\<close>, \<^verbatim>\<open>execute_shared\<close> and
  \<^verbatim>\<open>execute_exclusive\<close> with any callback) returns equal results and leaves equal
  containers.
\<close>

theorem versions_agree:
  assumes "internal_container b = internal_map s"
  shows "fst (insert_obj b obj) = fst (insert_obj_sa s obj) \<and>
         internal_container (snd (insert_obj b obj)) = internal_map (snd (insert_obj_sa s obj)) \<and>
         internal_container (insert_copy b k v) = internal_map (insert_copy_sa s k v) \<and>
         internal_container (insert_move b k v) = internal_map (insert_move_sa s k v) \<and>
         find_key b k = find_key_sa s k \<and>
         fst (emplace b args) = fst (emplace_sa s args) \<and>
         internal_container (snd (emplace b args)) = internal_map (snd (emplace_sa s args)) \<and>
         fst (erase b k) = fst (erase_sa s k) \<and>
         internal_container (snd (erase b k)) = internal_map (snd (erase_sa s k)) \<and>
         internal_container (clear b) = internal_map (clear_sa s) \<and>
         size_base b = size_sa s \<and>
         empty_base b = empty_sa s \<and>
         count_key b k = count_key_sa s k \<and>
         contains b k = contains_sa s k \<and>
         snapshot b = snapshot_sa s \<and>
         execute_shared b rd = execute_shared_sa s rd \<and>
         fst (execute_exclusive b wr) = fst (execute_exclusive_sa s wr) \<and>
         internal_container (snd (execute_exclusive b wr)) =
           internal_map (snd (execute_exclusive_sa s wr))"
proof -
  have writes:
    "fst (execute_exclusive b f) = fst (execute_exclusive_sa s f) \<and>
     internal_container (snd (execute_exclusive b f)) = internal_map (snd (execute_exclusive_sa s f))"
    for f :: "('a, 'b) internal_type \<Rightarrow> 'r \<times> ('a, 'b) internal_type"
    using assms by (simp add: execute_exclusive_def execute_exclusive_sa_def split: prod.splits)
  have reads: "execute_shared b f = execute_shared_sa s f"
    for f :: "('a, 'b) internal_type \<Rightarrow> 'r"
    using assms by (simp add: execute_shared_def execute_shared_sa_def)
  have sa_insert_obj: "insert_obj_sa s obj = execute_exclusive_sa s (\<lambda>m. std_insert m obj)"
    by (simp add: insert_obj_sa_def execute_exclusive_sa_def)
  have sa_emplace: "emplace_sa s args = execute_exclusive_sa s (\<lambda>m. std_emplace m args)"
    by (simp add: emplace_sa_def execute_exclusive_sa_def)
  have sa_erase: "erase_sa s k = execute_exclusive_sa s (\<lambda>m. std_erase m k)"
    by (simp add: erase_sa_def execute_exclusive_sa_def)
  have sa_insert_copy:
    "insert_copy_sa s k v = snd (execute_exclusive_sa s (\<lambda>m. ((), std_subscript_assign m k v)))"
    by (simp add: insert_copy_sa_def execute_exclusive_sa_def)
  have sa_insert_move:
    "insert_move_sa s k v = snd (execute_exclusive_sa s (\<lambda>m. ((), std_subscript_assign m k v)))"
    by (simp add: insert_move_sa_def execute_exclusive_sa_def)
  have sa_clear: "clear_sa s = snd (execute_exclusive_sa s (\<lambda>m. ((), std_clear m)))"
    by (simp add: clear_sa_def execute_exclusive_sa_def)
  have "fst (insert_obj b obj) = fst (insert_obj_sa s obj) \<and>
        internal_container (snd (insert_obj b obj)) = internal_map (snd (insert_obj_sa s obj))"
    unfolding insert_obj_def sa_insert_obj by (rule writes)
  moreover have "internal_container (insert_copy b k v) = internal_map (insert_copy_sa s k v)"
    unfolding insert_copy_def sa_insert_copy using writes by blast
  moreover have "internal_container (insert_move b k v) = internal_map (insert_move_sa s k v)"
    unfolding insert_move_def sa_insert_move using writes by blast
  moreover have "find_key b k = find_key_sa s k"
    using assms by (simp add: find_key_def find_key_sa_def execute_shared_def)
  moreover have "fst (emplace b args) = fst (emplace_sa s args) \<and>
        internal_container (snd (emplace b args)) = internal_map (snd (emplace_sa s args))"
    unfolding emplace_def sa_emplace by (rule writes)
  moreover have "fst (erase b k) = fst (erase_sa s k) \<and>
        internal_container (snd (erase b k)) = internal_map (snd (erase_sa s k))"
    unfolding erase_def sa_erase by (rule writes)
  moreover have "internal_container (clear b) = internal_map (clear_sa s)"
    unfolding clear_def sa_clear using writes by blast
  moreover have "size_base b = size_sa s"
    using assms by (simp add: size_base_def size_sa_def execute_shared_def)
  moreover have "empty_base b = empty_sa s"
    using assms by (simp add: empty_base_def empty_sa_def execute_shared_def)
  moreover have "count_key b k = count_key_sa s k"
    using assms by (simp add: count_key_def count_key_sa_def execute_shared_def)
  moreover have "contains b k = contains_sa s k"
    using assms by (simp add: contains_def contains_sa_def execute_shared_def)
  moreover have "snapshot b = snapshot_sa s"
    using assms by (simp add: snapshot_def snapshot_sa_def execute_shared_def)
  moreover note reads [of rd] writes [of wr]
  ultimately show ?thesis
    by blast
qed

theorem versions_agree_witness:
  "internal_container (insert_copy unordered_map (1::int) ''one'') =
     internal_map (insert_copy_sa unordered_map_sa (1::int) ''one'') \<and>
   find_key (insert_copy unordered_map (1::int) ''one'') 1 = Some ''one'' \<and>
   find_key_sa (insert_copy_sa unordered_map_sa (1::int) ''one'') 1 = Some ''one'' \<and>
   fst (erase (insert_copy unordered_map (1::int) ''one'') 1) = 1 \<and>
   fst (erase_sa (insert_copy_sa unordered_map_sa (1::int) ''one'') 1) = 1 \<and>
   size_base (insert_copy unordered_map (1::int) ''one'') = 1 \<and>
   size_sa (insert_copy_sa unordered_map_sa (1::int) ''one'') = 1"
proof -
  let ?b = "insert_copy unordered_map (1::int) ''one''"
  let ?s = "insert_copy_sa unordered_map_sa (1::int) ''one''"
  have same: "internal_container ?b = internal_map ?s"
    by (simp add: insert_copy_container insert_copy_sa_def unordered_map_def unordered_map_sa_def)
  have found: "find_key ?b 1 = Some ''one''"
    by (simp add: find_key_insert_copy)
  then have erased: "fst (erase ?b 1) = 1"
    by (simp add: erase_container std_count_find find_key_None [symmetric])
  have size: "size_base ?b = 1"
    by (simp add: size_base_insert_copy find_key_unordered_map size_base_unordered_map)
  from same found erased size
    versions_agree [OF same, of "(1, ''uno'')" 1 "''uno''" "(1, ''uno'')" std_size "\<lambda>m. ((), m)"]
  show ?thesis
    by simp
qed

section \<open>Size after a write\<close>

text \<open>
  C10. \<^verbatim>\<open>insert(obj)\<close> and \<^verbatim>\<open>emplace(args...)\<close> raise \<^verbatim>\<open>size()\<close> by one when they return
  \<^verbatim>\<open>true\<close> and leave it when they return \<^verbatim>\<open>false\<close>; \<^verbatim>\<open>erase(k)\<close> lowers \<^verbatim>\<open>size()\<close> by
  the number it returns, which is 0 or 1; \<^verbatim>\<open>insert(key, value)\<close>, copying or moving,
  raises \<^verbatim>\<open>size()\<close> by one when the key had no entry and leaves it when it had one.
\<close>

theorem size_delta:
  "size_base (snd (insert_obj this obj)) =
     size_base this + (if fst (insert_obj this obj) then 1 else 0) \<and>
   size_base (snd (emplace this args)) =
     size_base this + (if fst (emplace this args) then 1 else 0) \<and>
   size_base (snd (erase this k)) + fst (erase this k) = size_base this \<and>
   (fst (erase this k) = 0 \<or> fst (erase this k) = 1) \<and>
   size_base (insert_copy this k v) =
     size_base this + (if find_key this k = None then 1 else 0) \<and>
   size_base (insert_move this k v) =
     size_base this + (if find_key this k = None then 1 else 0)"
proof -
  have ins: "size_base (snd (insert_obj this obj)) =
      size_base this + (if fst (insert_obj this obj) then 1 else 0)"
    by (simp add: insert_obj_cases size_base_container std_size_new_element find_key_None)
  have emp: "size_base (snd (emplace this args)) =
      size_base this + (if fst (emplace this args) then 1 else 0)"
    by (simp add: emplace_cases size_base_container std_size_new_element find_key_None)
  have era: "size_base (snd (erase this k)) + fst (erase this k) = size_base this"
    by (simp add: erase_container size_base_container std_size_erased)
  have era01: "fst (erase this k) = 0 \<or> fst (erase this k) = 1"
    by (simp add: erase_container std_count_find)
  have cp: "size_base (insert_copy this k v) =
      size_base this + (if find_key this k = None then 1 else 0)"
    by (simp add: size_base_insert_copy)
  have mv: "size_base (insert_move this k v) =
      size_base this + (if find_key this k = None then 1 else 0)"
    by (simp add: size_base_insert_move)
  from ins emp era era01 cp mv show ?thesis
    by blast
qed

end
